theory Spec2Isabelle
  imports Main
begin

section \<open>Data model of icecloud.go\<close>

text \<open>
  The Go structs \<^verbatim>\<open>Config\<close>, \<^verbatim>\<open>Icecast\<close> and \<^verbatim>\<open>Server\<close> become records. A Go pointer
  that may be nil (\<^verbatim>\<open>*ec2.Instance\<close>, \<^verbatim>\<open>*Icecast\<close>) becomes an \<open>option\<close>. Of
  \<^verbatim>\<open>ec2.Instance\<close> the program reads only \<^verbatim>\<open>InstanceId\<close> and \<^verbatim>\<open>DNSName\<close>.
  \<^verbatim>\<open>Config.Server\<close> is a slice of pointers filled by the JSON decoder, one fresh
  \<^verbatim>\<open>Server\<close> per array element, so a pointer \<^verbatim>\<open>s\<close> into it is modelled by the index
  of the node in the list.
\<close>

record Instance =
  InstanceId :: string
  DNSName :: string

record Icecast =
  SourcePassword :: string
  RelayPassword :: string
  AdminPassword :: string
  ListenPort :: int

record Server =
  Name :: string
  Kind :: string
  Location :: string
  Username :: string
  ImageID :: string
  Size :: string
  NumClients :: int
  NumSources :: int
  Instance :: "Instance option"

type_synonym aws_Auth = "string \<times> string"

record Config =
  KeyName :: string
  Server :: "Server list"
  Icecast :: "Icecast option"
  auth :: aws_Auth

datatype aws_Region = APNortheast | APSoutheast | EUWest | USEast | USWest

text \<open>An \<^verbatim>\<open>ec2.EC2\<close> client, as built by \<^verbatim>\<open>ec2.New(c.auth, s.Region())\<close>.\<close>

type_synonym EC2 = "aws_Auth \<times> aws_Region"

record RunInstances =
  ImageId :: string
  InstanceType :: string
  ri_KeyName :: string

record Reservation =
  Instances :: "Instance list"

subsection \<open>Errors and panics\<close>

text \<open>
  Every error value the program builds itself is a constructor; an error handed back by
  the provider, by ssh or by the operating system is \<open>External\<close> with its message.
\<close>

datatype error =
    External string
  | WantOneInstance nat
  | WantOneReservation nat
  | GetWantOneInstance nat
  | ServerTookTooLong
  | ShutdownUnclean
  | SetupUnclean
  | NoMasterFound
  | SshNilInstance
  | SetupTemplateError string
  | InvalidVerb

text \<open>A Go panic ends the process; it is kept apart from a returned error.\<close>

datatype 'a outcome = Panic string | Ret 'a

definition panicked :: "'a outcome \<Rightarrow> bool" where
  "panicked r = (case r of Panic p \<Rightarrow> True | Ret a \<Rightarrow> False)"

subsection \<open>The outside world\<close>

text \<open>
  Each call that leaves the process is logged as an event, tagged with the index of the
  node it is made for. The provider, the ssh transport and the clock are oracles: their
  answer to a call is a function of the calls logged before it, so every behaviour of
  the outside world is some value of the environment. The sequential code (creation,
  termination) logs into one trace; each concurrent worker (readiness wait, rollout)
  has a trace and a clock of its own and its oracle is indexed by the node, so that a
  statement for all environments covers every interleaving of the workers.
\<close>

datatype event =
    EvRunInstances nat EC2 "RunInstances"
  | EvTerminateInstances nat EC2 "string list"
  | EvInstances nat EC2 "string list"
  | EvSleep nat nat
  | EvSsh nat string string "string option"

record env =
  ec2_RunInstances :: "event list \<Rightarrow> EC2 \<Rightarrow> RunInstances \<Rightarrow> error + Instance list"
  ec2_TerminateInstances :: "event list \<Rightarrow> EC2 \<Rightarrow> string list \<Rightarrow> error option"
  ec2_Instances :: "nat \<Rightarrow> event list \<Rightarrow> EC2 \<Rightarrow> string list \<Rightarrow> error + Reservation list"
  call_duration :: "nat \<Rightarrow> event list \<Rightarrow> nat"
  start_time :: "nat \<Rightarrow> nat"
  ssh_CombinedOutput :: "nat \<Rightarrow> event list \<Rightarrow> string \<Rightarrow> string \<Rightarrow> string option \<Rightarrow> error option"
  os_Create :: "(string \<times> string) list \<Rightarrow> string \<Rightarrow> error option"
  file_Write :: "(string \<times> string) list \<Rightarrow> string \<Rightarrow> string \<Rightarrow> error option"
  read_Config :: "string \<Rightarrow> error + Config"
  write_Config :: "string \<Rightarrow> Config \<Rightarrow> error option"

text \<open>The state of the sequential code: the configuration and the calls made so far.\<close>

record state =
  cfg :: Config
  trace :: "event list"

section \<open>The operations\<close>

definition Locations :: "string \<rightharpoonup> aws_Region" where
  "Locations =
     [''Tokyo'' \<mapsto> APNortheast,
      ''Singapore'' \<mapsto> APSoutheast,
      ''Europe'' \<mapsto> EUWest,
      ''USEast'' \<mapsto> USEast,
      ''USWest'' \<mapsto> USWest]"

text \<open>
  The panic message prints the location with \<^verbatim>\<open>%q\<close>; the escapes \<^verbatim>\<open>%q\<close> puts inside
  the quotes for special characters are left out.
\<close>

definition Region :: "Server \<Rightarrow> aws_Region outcome" where
  "Region s =
     (case Locations (Location s) of
        None \<Rightarrow> Panic (''invalid Server Location: '' @ [CHR 0x22] @ Location s @ [CHR 0x22])
      | Some r \<Rightarrow> Ret r)"

definition set_Instance :: "nat \<Rightarrow> Instance \<Rightarrow> Config \<Rightarrow> Config" where
  "set_Instance i inst c =
     c\<lparr>Server := (Server c)[i := (Server c ! i)\<lparr>Instance := Some inst\<rparr>]\<rparr>"

definition runInstance :: "env \<Rightarrow> nat \<Rightarrow> state \<Rightarrow> (error option \<times> state) outcome" where
  "runInstance e i st =
     (let c = cfg st; s = Server c ! i in
      case Region s of
        Panic p \<Rightarrow> Panic p
      | Ret r \<Rightarrow>
          (let ec = (auth c, r);
               options = \<lparr>ImageId = ImageID s, InstanceType = Size s, ri_KeyName = KeyName c\<rparr>;
               resp = ec2_RunInstances e (trace st) ec options;
               st1 = st\<lparr>trace := trace st @ [EvRunInstances i ec options]\<rparr>
           in case resp of
                Inl err \<Rightarrow> Ret (Some err, st1)
              | Inr insts \<Rightarrow>
                  if length insts \<noteq> 1 then Ret (Some (WantOneInstance (length insts)), st1)
                  else Ret (None, st1\<lparr>cfg := set_Instance i (insts ! 0) c\<rparr>)))"

text \<open>
  \<^verbatim>\<open>Shutdown\<close>: the loop over \<^verbatim>\<open>c.Server\<close>, with the flag \<^verbatim>\<open>ok\<close> as an accumulator.
\<close>

fun Shutdown_loop :: "env \<Rightarrow> Config \<Rightarrow> nat list \<Rightarrow> bool \<Rightarrow> event list \<Rightarrow> (bool \<times> event list) outcome" where
  "Shutdown_loop e c [] ok tr = Ret (ok, tr)"
| "Shutdown_loop e c (i # is) ok tr =
     (let s = Server c ! i in
      case Instance s of
        None \<Rightarrow> Shutdown_loop e c is ok tr
      | Some inst \<Rightarrow>
          (case Region s of
             Panic p \<Rightarrow> Panic p
           | Ret r \<Rightarrow>
               (let ec = (auth c, r);
                    instIds = [InstanceId inst];
                    err = ec2_TerminateInstances e tr ec instIds;
                    tr1 = tr @ [EvTerminateInstances i ec instIds]
                in Shutdown_loop e c is (if err \<noteq> None then False else ok) tr1)))"

definition Shutdown :: "env \<Rightarrow> state \<Rightarrow> (error option \<times> state) outcome" where
  "Shutdown e st =
     (case Shutdown_loop e (cfg st) [0..<length (Server (cfg st))] True (trace st) of
        Panic p \<Rightarrow> Panic p
      | Ret (ok, tr) \<Rightarrow>
          if \<not> ok then Ret (Some ShutdownUnclean, st\<lparr>trace := tr\<rparr>)
          else Ret (None, st\<lparr>trace := tr\<rparr>))"

text \<open>
  A readiness worker owns one node: its copy of the node (written back when the worker
  has reported), its clock in nanoseconds and its own log.
\<close>

record wstate =
  srv :: Server
  clock :: nat
  wtrace :: "event list"

definition getInstance :: "env \<Rightarrow> Config \<Rightarrow> nat \<Rightarrow> wstate \<Rightarrow> ((error + Instance) \<times> wstate) outcome" where
  "getInstance e c i w =
     (let s = srv w in
      case Region s of
        Panic p \<Rightarrow> Panic p
      | Ret r \<Rightarrow>
          (case Instance s of
             None \<Rightarrow> Panic ''nil pointer dereference''
           | Some inst \<Rightarrow>
               (let ec = (auth c, r);
                    instIds = [InstanceId inst];
                    resp = ec2_Instances e i (wtrace w) ec instIds;
                    w1 = w\<lparr>clock := clock w + call_duration e i (wtrace w),
                           wtrace := wtrace w @ [EvInstances i ec instIds]\<rparr>
                in case resp of
                     Inl err \<Rightarrow> Ret (Inl err, w1)
                   | Inr rs \<Rightarrow>
                       if length rs \<noteq> 1 then Ret (Inl (WantOneReservation (length rs)), w1)
                       else if length (Instances (rs ! 0)) \<noteq> 1
                       then Ret (Inl (GetWantOneInstance (length (Instances (rs ! 0)))), w1)
                       else Ret (Inr (Instances (rs ! 0) ! 0),
                                 w1\<lparr>srv := s\<lparr>Instance := Some (Instances (rs ! 0) ! 0)\<rparr>\<rparr>))))"

text \<open>
  \<^verbatim>\<open>time.Sleep(d)\<close> pauses for at least \<open>d\<close>; the oracle gives the time by which it
  oversleeps.
\<close>

definition Sleep :: "env \<Rightarrow> nat \<Rightarrow> nat \<Rightarrow> wstate \<Rightarrow> wstate" where
  "Sleep e i d w =
     w\<lparr>clock := clock w + d + call_duration e i (wtrace w),
       wtrace := wtrace w @ [EvSleep i d]\<rparr>"

function waitReady_loop :: "env \<Rightarrow> Config \<Rightarrow> nat \<Rightarrow> nat \<Rightarrow> wstate \<Rightarrow> (error option \<times> wstate) outcome" where
  "waitReady_loop e c i deadline w =
     (if clock w < deadline then
        (case getInstance e c i w of
           Panic p \<Rightarrow> Panic p
         | Ret (Inl err, w1) \<Rightarrow> Ret (Some err, w1)
         | Ret (Inr inst, w1) \<Rightarrow>
             if DNSName inst \<noteq> [] then Ret (None, w1)
             else waitReady_loop e c i deadline (Sleep e i 5000000000 w1))
      else Ret (Some ServerTookTooLong, w))"
  by pat_completeness auto
termination
  apply (relation "measure (\<lambda>(e, c, i, deadline, w). deadline - clock w)")
   apply simp
  apply (auto simp: Sleep_def getInstance_def Let_def
      split: outcome.splits option.splits sum.splits if_splits)
  done

definition waitReady :: "env \<Rightarrow> Config \<Rightarrow> nat \<Rightarrow> (error option \<times> wstate) outcome" where
  "waitReady e c i =
     (let w0 = \<lparr>srv = Server c ! i, clock = start_time e i, wtrace = []\<rparr>;
          deadline = clock w0 + 120000000000
      in waitReady_loop e c i deadline w0)"

text \<open>A panic in any goroutine ends the process.\<close>

fun collect :: "'a outcome list \<Rightarrow> 'a list outcome" where
  "collect [] = Ret []"
| "collect (x # xs) =
     (case x of
        Panic p \<Rightarrow> Panic p
      | Ret a \<Rightarrow> (case collect xs of Panic p \<Rightarrow> Panic p | Ret as \<Rightarrow> Ret (a # as)))"

text \<open>
  \<^verbatim>\<open>Run\<close>, first loop: \<open>Inl\<close> is the early \<^verbatim>\<open>return c.Shutdown()\<close>, \<open>Inr\<close> the state
  when the loop has run to its end.
\<close>

fun Run_loop :: "env \<Rightarrow> nat list \<Rightarrow> state \<Rightarrow> ((error option \<times> state) + state) outcome" where
  "Run_loop e [] st = Ret (Inr st)"
| "Run_loop e (i # is) st =
     (case runInstance e i st of
        Panic p \<Rightarrow> Panic p
      | Ret (Some err, st1) \<Rightarrow>
          (case Shutdown e st1 of Panic p \<Rightarrow> Panic p | Ret r \<Rightarrow> Ret (Inl r))
      | Ret (None, st1) \<Rightarrow> Run_loop e is st1)"

text \<open>
  \<^verbatim>\<open>Run\<close>, second part: one worker per node, and the loop that receives from \<^verbatim>\<open>done\<close>
  once per node. The result of a worker is only logged. The workers' logs are appended
  to the trace node by node (each event carries its node).
\<close>

definition Run :: "env \<Rightarrow> state \<Rightarrow> (error option \<times> state) outcome" where
  "Run e st =
     (case Run_loop e [0..<length (Server (cfg st))] st of
        Panic p \<Rightarrow> Panic p
      | Ret (Inl r) \<Rightarrow> Ret r
      | Ret (Inr st1) \<Rightarrow>
          (let c1 = cfg st1 in
           case collect (map (waitReady e c1) [0..<length (Server c1)]) of
             Panic p \<Rightarrow> Panic p
           | Ret rs \<Rightarrow>
               Ret (None, st1\<lparr>cfg := c1\<lparr>Server := map (\<lambda>r. srv (snd r)) rs\<rparr>,
                              trace := trace st1 @ concat (map (\<lambda>r. wtrace (snd r)) rs)\<rparr>)))"

subsection \<open>Rollout (\<^verbatim>\<open>Setup\<close>, template.go)\<close>

text \<open>Decimal printing of \<^verbatim>\<open>%d\<close> and of the template engine.\<close>

function string_of_nat :: "nat \<Rightarrow> string" where
  "string_of_nat n =
     (if n < 10 then [char_of (48 + n)]
      else string_of_nat (n div 10) @ [char_of (48 + n mod 10)])"
  by pat_completeness auto
termination
  by (relation "measure (\<lambda>n. n)") auto

definition string_of_int :: "int \<Rightarrow> string" where
  "string_of_int i = (if i < 0 then ''-'' @ string_of_nat (nat (- i)) else string_of_nat (nat i))"

text \<open>
  The constant \<^verbatim>\<open>setupText\<close>, cut at its template actions: \<open>setupText_0\<close> is the text
  before the first action, \<open>setupText_12\<close> the text after \<^verbatim>\<open>{{end}}\<close>.
\<close>

definition setupText_0 :: string where
  "setupText_0 =
     ''#!/bin/bash\<newline>'' @
     ''\<newline>'' @
     ''sudo apt-get -qq -y install icecast2\<newline>'' @
     ''\<newline>'' @
     ''cat > etc_icecast2_icecast.xml <<EOF\<newline>'' @
     ''<icecast>\<newline>'' @
     ''    <limits>\<newline>'' @
     ''        <clients>''"

definition setupText_1 :: string where
  "setupText_1 =
     ''</clients>\<newline>'' @
     ''        <sources>''"

definition setupText_2 :: string where
  "setupText_2 =
     ''</sources>\<newline>'' @
     ''        <threadpool>5</threadpool>\<newline>'' @
     ''        <queue-size>524288</queue-size>\<newline>'' @
     ''        <client-timeout>30</client-timeout>\<newline>'' @
     ''        <header-timeout>15</header-timeout>\<newline>'' @
     ''        <source-timeout>10</source-timeout>\<newline>'' @
     ''        <burst-on-connect>1</burst-on-connect>\<newline>'' @
     ''        <burst-size>65535</burst-size>\<newline>'' @
     ''    </limits>\<newline>'' @
     ''\<newline>'' @
     ''    <authentication>\<newline>'' @
     ''        <!-- Sources log in with username '' @
     [CHR 0x27] @
     ''source'' @
     [CHR 0x27] @
     '' -->\<newline>'' @
     ''        <source-password>''"

definition setupText_3 :: string where
  "setupText_3 =
     ''</source-password>\<newline>'' @
     ''        <!-- Relays log in username '' @
     [CHR 0x27] @
     ''relay'' @
     [CHR 0x27] @
     '' -->\<newline>'' @
     ''        <relay-password>''"

definition setupText_4 :: string where
  "setupText_4 =
     ''</relay-password>\<newline>'' @
     ''        <!-- Admin logs in with the username given below -->\<newline>'' @
     ''        <admin-user>admin</admin-user>\<newline>'' @
     ''        <admin-password>''"

definition setupText_5 :: string where
  "setupText_5 =
     ''</admin-password>\<newline>'' @
     ''    </authentication>\<newline>'' @
     ''\<newline>'' @
     ''    <hostname>''"

definition setupText_6 :: string where
  "setupText_6 =
     ''</hostname>\<newline>'' @
     ''\<newline>'' @
     ''    <listen-socket>\<newline>'' @
     ''        <port>''"

definition setupText_7 :: string where
  "setupText_7 =
     ''</port>\<newline>'' @
     ''    </listen-socket>\<newline>'' @
     ''\<newline>''"

definition setupText_8 :: string where
  "setupText_8 =
     ''\<newline>'' @
     ''    <master-server>''"

definition setupText_9 :: string where
  "setupText_9 =
     ''</master-server>\<newline>'' @
     ''    <master-server-port>''"

definition setupText_10 :: string where
  "setupText_10 =
     ''</master-server-port>\<newline>'' @
     ''    <master-update-interval>5</master-update-interval>\<newline>'' @
     ''    <master-password>''"

definition setupText_11 :: string where
  "setupText_11 =
     ''</master-password>\<newline>''"

definition setupText_12 :: string where
  "setupText_12 =
     ''\<newline>'' @
     ''\<newline>'' @
     ''    <fileserve>1</fileserve>\<newline>'' @
     ''\<newline>'' @
     ''    <paths>\<newline>'' @
     ''        <logdir>/var/log/icecast2</logdir>\<newline>'' @
     ''        <webroot>/usr/share/icecast2/web</webroot>\<newline>'' @
     ''        <adminroot>/usr/share/icecast2/admin</adminroot>\<newline>'' @
     ''        <alias source='' @
     [CHR 0x22] @
     ''/'' @
     [CHR 0x22] @
     '' dest='' @
     [CHR 0x22] @
     ''/status.xsl'' @
     [CHR 0x22] @
     ''/>\<newline>'' @
     ''    </paths>\<newline>'' @
     ''\<newline>'' @
     ''    <logging>\<newline>'' @
     ''        <accesslog>access.log</accesslog>\<newline>'' @
     ''        <errorlog>error.log</errorlog>\<newline>'' @
     ''      '' @
     [CHR 0x09] @
     ''<loglevel>3</loglevel> <!-- 4 Debug, 3 Info, 2 Warn, 1 Error -->\<newline>'' @
     ''      '' @
     [CHR 0x09] @
     ''<logsize>10000</logsize> <!-- Max size of a logfile -->\<newline>'' @
     ''        <logarchive>1</logarchive>\<newline>'' @
     ''    </logging>\<newline>'' @
     ''\<newline>'' @
     ''    <security>\<newline>'' @
     ''        <chroot>0</chroot>\<newline>'' @
     ''    </security>\<newline>'' @
     ''</icecast>\<newline>'' @
     ''EOF\<newline>'' @
     ''\<newline>'' @
     ''cat > etc_default_icecast2 <<EOF\<newline>'' @
     ''# Defaults for icecast2 initscript\<newline>'' @
     ''# sourced by /etc/init.d/icecast2\<newline>'' @
     ''# installed at /etc/default/icecast2 by the maintainer scripts\<newline>'' @
     ''\<newline>'' @
     ''#\<newline>'' @
     ''# This is a POSIX shell fragment\<newline>'' @
     ''#\<newline>'' @
     ''\<newline>'' @
     ''# Full path to the server configuration file\<newline>'' @
     ''CONFIGFILE='' @
     [CHR 0x22] @
     ''/etc/icecast2/icecast.xml'' @
     [CHR 0x22] @
     ''\<newline>'' @
     ''\<newline>'' @
     ''# Name or ID of the user and group the daemon should run under\<newline>'' @
     ''USERID=icecast2\<newline>'' @
     ''GROUPID=icecast\<newline>'' @
     ''\<newline>'' @
     ''# Edit /etc/icecast2/icecast.xml and change at least the passwords.\<newline>'' @
     ''# Change this to true when done to enable the init.d script\<newline>'' @
     ''ENABLE=true\<newline>'' @
     ''\<newline>'' @
     ''EOF\<newline>'' @
     ''\<newline>'' @
     ''sudo cp etc_default_icecast2 /etc/default/icecast2\<newline>'' @
     ''sudo cp etc_icecast2_icecast.xml /etc/icecast2/icecast.xml\<newline>'' @
     ''sudo chown icecast2:icecast /etc/icecast2/icecast.xml\<newline>'' @
     ''sudo chmod 660 /etc/icecast2/icecast.xml\<newline>'' @
     ''\<newline>'' @
     ''sudo /etc/init.d/icecast2 restart\<newline>''"

text \<open>
  \<^verbatim>\<open>SetupTemplate\<close> executes the template on the credentials, the node and the master
  (nil for a master node). The engine writes the text in order and stops with an error
  at the first field looked up through a nil pointer: \<^verbatim>\<open>.Icecast.SourcePassword\<close>,
  then \<^verbatim>\<open>.Server.Instance.DNSName\<close>, then, inside \<^verbatim>\<open>{{if .Master}}\<close>,
  \<^verbatim>\<open>.Master.Instance.DNSName\<close>.
\<close>

definition SetupTemplate :: "Icecast option \<Rightarrow> Server \<Rightarrow> Server option \<Rightarrow> error + string" where
  "SetupTemplate icecast server master =
     (case icecast of
        None \<Rightarrow> Inl (SetupTemplateError ''nil pointer evaluating *main.Icecast.SourcePassword'')
      | Some ic \<Rightarrow>
          (case Instance server of
             None \<Rightarrow> Inl (SetupTemplateError ''nil pointer evaluating *ec2.Instance.DNSName'')
           | Some inst \<Rightarrow>
               (let head =
                      setupText_0 @ string_of_int (NumClients server) @
                      setupText_1 @ string_of_int (NumSources server) @
                      setupText_2 @ SourcePassword ic @
                      setupText_3 @ RelayPassword ic @
                      setupText_4 @ AdminPassword ic @
                      setupText_5 @ DNSName inst @
                      setupText_6 @ string_of_int (ListenPort ic) @
                      setupText_7
                in case master of
                     None \<Rightarrow> Inr (head @ setupText_12)
                   | Some m \<Rightarrow>
                       (case Instance m of
                          None \<Rightarrow> Inl (SetupTemplateError ''nil pointer evaluating *ec2.Instance.DNSName'')
                        | Some minst \<Rightarrow>
                            Inr (head @
                                 setupText_8 @ DNSName minst @
                                 setupText_9 @ string_of_int (ListenPort ic) @
                                 setupText_10 @ RelayPassword ic @
                                 setupText_11 @ setupText_12)))))"

text \<open>A rollout worker has a log of its own; it does not write to the configuration.\<close>

definition sshCommand :: "env \<Rightarrow> nat \<Rightarrow> Server \<Rightarrow> string \<Rightarrow> string option \<Rightarrow> event list \<Rightarrow> error option \<times> event list" where
  "sshCommand e i s command stdin tr =
     (case Instance s of
        None \<Rightarrow> (Some SshNilInstance, tr)
      | Some inst \<Rightarrow>
          (let userhost = Username s @ ''@'' @ DNSName inst
           in (ssh_CombinedOutput e i tr userhost command stdin,
               tr @ [EvSsh i userhost command stdin])))"

definition setupInstance :: "env \<Rightarrow> Config \<Rightarrow> nat \<Rightarrow> error option \<times> event list" where
  "setupInstance e c i =
     (let s = Server c ! i;
          rendered =
            (if Kind s = ''master'' then Inr (SetupTemplate (Icecast c) s None)
             else (case find (\<lambda>n. Kind n = ''master'') (Server c) of
                     None \<Rightarrow> Inl NoMasterFound
                   | Some m \<Rightarrow> Inr (SetupTemplate (Icecast c) s (Some m))))
      in case rendered of
           Inl err \<Rightarrow> (Some err, [])
         | Inr (Inl err) \<Rightarrow> (Some err, [])
         | Inr (Inr stdin) \<Rightarrow>
             (case sshCommand e i s ''cat > setup.sh'' (Some stdin) [] of
                (Some err, tr) \<Rightarrow> (Some err, tr)
              | (None, tr) \<Rightarrow> sshCommand e i s ''bash setup.sh'' None tr))"

text \<open>The loop that receives one boolean per node from the channel \<^verbatim>\<open>ok\<close>.\<close>

fun Setup_fanin :: "bool list \<Rightarrow> bool \<Rightarrow> bool" where
  "Setup_fanin [] allOk = allOk"
| "Setup_fanin (k # ks) allOk = Setup_fanin ks (allOk \<and> k)"

definition Setup :: "env \<Rightarrow> state \<Rightarrow> (error option \<times> state) outcome" where
  "Setup e st =
     (let c = cfg st;
          rs = map (setupInstance e c) [0..<length (Server c)];
          allOk = Setup_fanin (map (\<lambda>r. fst r = None) rs) True;
          st1 = st\<lparr>trace := trace st @ concat (map snd rs)\<rparr>
      in if \<not> allOk then Ret (Some SetupUnclean, st1) else Ret (None, st1))"

subsection \<open>Playlists\<close>

definition ServerURL :: "Config \<Rightarrow> Server \<Rightarrow> string" where
  "ServerURL c s =
     (case (Instance s, Icecast c) of
        (Some inst, Some ic) \<Rightarrow> ''http://'' @ DNSName inst @ '':'' @ string_of_int (ListenPort ic) @ ''/''
      | _ \<Rightarrow> [])"

definition m3uTmpl :: "string list \<Rightarrow> string" where
  "m3uTmpl servers = concat (map (\<lambda>s. s @ ''\<newline>'') servers)"

definition idx :: "nat \<Rightarrow> nat" where
  "idx i = i + 1"

definition plsTmpl :: "string list \<Rightarrow> string" where
  "plsTmpl servers =
     ''\<newline>[playlist]\<newline>'' @
     concat (map (\<lambda>(i, s).
        ''\<newline>File'' @ string_of_nat (idx i) @ ''='' @ s @
        ''\<newline>Title'' @ string_of_nat (idx i) @ ''=Server '' @ string_of_nat (idx i) @
        ''\<newline>Length'' @ string_of_nat (idx i) @ ''=-1\<newline>'') (enumerate 0 servers)) @
     ''\<newline>NumberOfEntries='' @ string_of_nat (length servers) @
     ''\<newline>Version=2\<newline>''"

text \<open>The inner loop of \<^verbatim>\<open>writePlaylist\<close>, appending to \<^verbatim>\<open>servers\<close>.\<close>

fun servers_loop :: "Config \<Rightarrow> string \<Rightarrow> nat \<Rightarrow> nat list \<Rightarrow> string list \<Rightarrow> string list" where
  "servers_loop c mount i [] servers = servers"
| "servers_loop c mount i (j # js) servers =
     (if Kind (Server c ! j) = ''master'' \<or> i = j then servers_loop c mount i js servers
      else servers_loop c mount i js (servers @ [ServerURL c (Server c ! j) @ mount]))"

text \<open>
  The outer loop. The files written so far are the state; a file whose creation or
  writing fails is not added to them.
\<close>

fun writePlaylist_loop :: "env \<Rightarrow> Config \<Rightarrow> string \<Rightarrow> string \<Rightarrow> (string list \<Rightarrow> string) \<Rightarrow> nat list
    \<Rightarrow> (string \<times> string) list \<Rightarrow> error option \<times> (string \<times> string) list" where
  "writePlaylist_loop e c mount ext t [] fs = (None, fs)"
| "writePlaylist_loop e c mount ext t (i # is) fs =
     (let s = Server c ! i in
      if Kind s = ''master'' then writePlaylist_loop e c mount ext t is fs
      else
        (let url = ServerURL c s @ mount;
             servers = servers_loop c mount i [0..<length (Server c)] [url];
             name = mount @ ''-'' @ Name s @ ''.'' @ ext
         in case os_Create e fs name of
              Some err \<Rightarrow> (Some err, fs)
            | None \<Rightarrow>
                (case file_Write e fs name (t servers) of
                   Some err \<Rightarrow> (Some err, fs)
                 | None \<Rightarrow> writePlaylist_loop e c mount ext t is (fs @ [(name, t servers)]))))"

definition writePlaylist :: "env \<Rightarrow> Config \<Rightarrow> string \<Rightarrow> string \<Rightarrow> (string list \<Rightarrow> string)
    \<Rightarrow> (string \<times> string) list \<Rightarrow> error option \<times> (string \<times> string) list" where
  "writePlaylist e c mount ext t fs =
     writePlaylist_loop e c mount ext t [0..<length (Server c)] fs"

fun Playlist :: "env \<Rightarrow> Config \<Rightarrow> string list \<Rightarrow> (string \<times> string) list
    \<Rightarrow> error option \<times> (string \<times> string) list" where
  "Playlist e c [] fs = (None, fs)"
| "Playlist e c (m # ms) fs =
     (case writePlaylist e c m ''m3u'' m3uTmpl fs of
        (Some err, fs1) \<Rightarrow> (Some err, fs1)
      | (None, fs1) \<Rightarrow>
          (case writePlaylist e c m ''pls'' plsTmpl fs1 of
             (Some err, fs2) \<Rightarrow> (Some err, fs2)
           | (None, fs2) \<Rightarrow> Playlist e c ms fs2))"

subsection \<open>The command (\<^verbatim>\<open>main\<close>)\<close>

text \<open>
  What one invocation leaves behind: its exit status, the state files it wrote (the
  configuration marshalled into each), the playlist files and the calls it made.
  \<^verbatim>\<open>flag.Usage\<close> and \<^verbatim>\<open>log.Fatal\<close> exit with status 1, a panic with status 2.
  \<open>args\<close> is \<^verbatim>\<open>flag.Args()\<close>, \<open>stateFile\<close> the value of the \<^verbatim>\<open>-state\<close> flag.
\<close>

record process =
  exit_status :: nat
  written :: "(string \<times> Config) list"
  playlists :: "(string \<times> string) list"
  calls :: "event list"

definition flag_Arg :: "string list \<Rightarrow> nat \<Rightarrow> string" where
  "flag_Arg args i = (if i < length args then args ! i else [])"

definition verb_result :: "env \<Rightarrow> string \<Rightarrow> string list \<Rightarrow> Config
    \<Rightarrow> (error option \<times> state \<times> (string \<times> string) list) outcome" where
  "verb_result e verb args config =
     (let st = \<lparr>cfg = config, trace = []\<rparr> in
      if verb = ''run'' then
        (case Run e st of Panic p \<Rightarrow> Panic p | Ret (err, st1) \<Rightarrow> Ret (err, st1, []))
      else if verb = ''setup'' then
        (case Setup e st of Panic p \<Rightarrow> Panic p | Ret (err, st1) \<Rightarrow> Ret (err, st1, []))
      else if verb = ''playlist'' then
        (case Playlist e config (drop 1 args) [] of (err, fs) \<Rightarrow> Ret (err, st, fs))
      else if verb = ''shutdown'' then
        (case Shutdown e st of Panic p \<Rightarrow> Panic p | Ret (err, st1) \<Rightarrow> Ret (err, st1, []))
      else Ret (Some InvalidVerb, st, []))"

definition main :: "env \<Rightarrow> string \<Rightarrow> string list \<Rightarrow> process" where
  "main e stateFile args =
     (let verb = flag_Arg args 0;
          usage = \<lparr>exit_status = 1, written = [], playlists = [], calls = []\<rparr>
      in if verb = [] then usage
         else if verb = ''run'' \<and> flag_Arg args 1 = [] then usage
         else
           (let configFile = (if verb \<noteq> ''run'' then stateFile else flag_Arg args 1)
            in case read_Config e configFile of
                 Inl err \<Rightarrow> \<lparr>exit_status = 1, written = [], playlists = [], calls = []\<rparr>
               | Inr config \<Rightarrow>
                   (case verb_result e verb args config of
                      Panic p \<Rightarrow> \<lparr>exit_status = 2, written = [], playlists = [], calls = []\<rparr>
                    | Ret (Some err, st, fs) \<Rightarrow>
                        \<lparr>exit_status = 1, written = [], playlists = fs, calls = trace st\<rparr>
                    | Ret (None, st, fs) \<Rightarrow>
                        (case write_Config e stateFile (cfg st) of
                           Some err \<Rightarrow> \<lparr>exit_status = 1, written = [], playlists = fs, calls = trace st\<rparr>
                         | None \<Rightarrow>
                             \<lparr>exit_status = 0, written = [(stateFile, cfg st)], playlists = fs,
                              calls = trace st\<rparr>))))"

section \<open>Vocabulary of the properties\<close>

text \<open>
  The calls a run is expected to make and the answers the environment gives to them,
  written directly from the configuration. \<open>client\<close> is read only for nodes whose
  location is in the table.
\<close>

definition live :: "Config \<Rightarrow> nat \<Rightarrow> bool" where
  "live c i = (Instance (Server c ! i) \<noteq> None)"

definition client :: "Config \<Rightarrow> nat \<Rightarrow> EC2" where
  "client c i = (auth c, the (Locations (Location (Server c ! i))))"

definition terminate_request :: "Config \<Rightarrow> nat \<Rightarrow> event list" where
  "terminate_request c i =
     (case Instance (Server c ! i) of
        None \<Rightarrow> []
      | Some inst \<Rightarrow> [EvTerminateInstances i (client c i) [InstanceId inst]])"

definition terminate_response :: "env \<Rightarrow> Config \<Rightarrow> event list \<Rightarrow> nat \<Rightarrow> error option" where
  "terminate_response e c tr i =
     (case Instance (Server c ! i) of
        None \<Rightarrow> None
      | Some inst \<Rightarrow> ec2_TerminateInstances e tr (client c i) [InstanceId inst])"

fun terminated :: "event list \<Rightarrow> nat list" where
  "terminated [] = []"
| "terminated (EvTerminateInstances i ec ids # es) = i # terminated es"
| "terminated (ev # es) = terminated es"

definition shutdown_requests :: "Config \<Rightarrow> event list" where
  "shutdown_requests c = concat (map (terminate_request c) [0..<length (Server c)])"

definition terminate_failed :: "env \<Rightarrow> Config \<Rightarrow> event list \<Rightarrow> nat \<Rightarrow> bool" where
  "terminate_failed e c tr i =
     (terminate_response e c (tr @ concat (map (terminate_request c) [0..<i])) i \<noteq> None)"








text \<open>What an operation returned, if it returned.\<close>

definition returned :: "('a \<times> 'b) outcome \<Rightarrow> 'a option" where
  "returned r = (case r of Panic p \<Rightarrow> None | Ret (a, b) \<Rightarrow> Some a)"

text \<open>
  Rollout: the outcome of one node's worker, and the remote commands of all workers,
  node by node.
\<close>

fun ssh_for :: "nat \<Rightarrow> event \<Rightarrow> bool" where
  "ssh_for i (EvSsh j userhost command stdin) = (i = j)"
| "ssh_for i ev = False"

definition rollout_ok :: "env \<Rightarrow> Config \<Rightarrow> nat \<Rightarrow> bool" where
  "rollout_ok e c i = (fst (setupInstance e c i) = None)"

definition rollout_calls :: "env \<Rightarrow> Config \<Rightarrow> event list" where
  "rollout_calls e c = concat (map (\<lambda>i. snd (setupInstance e c i)) [0..<length (Server c)])"

section \<open>Example fleets and environments\<close>

definition node :: "string \<Rightarrow> string \<Rightarrow> Instance option \<Rightarrow> Server" where
  "node name kind inst =
     \<lparr>Name = name, Kind = kind, Location = ''Tokyo'', Username = ''ubuntu'', ImageID = ''ami-1'',
      Size = ''t1.micro'', NumClients = 100, NumSources = 2, Instance = inst\<rparr>"

definition fleet :: "Server list \<Rightarrow> Config" where
  "fleet ss =
     \<lparr>KeyName = ''key'', Server = ss,
      Icecast = Some \<lparr>SourcePassword = ''s'', RelayPassword = ''r'', AdminPassword = ''a'', ListenPort = 8000\<rparr>,
      auth = (''id'', ''secret'')\<rparr>"

definition vm :: "string \<Rightarrow> string \<Rightarrow> Instance" where
  "vm ident host = \<lparr>InstanceId = ident, DNSName = host\<rparr>"

text \<open>A state file: the second node was never created and has a location outside the table.\<close>

definition fleet_mixed :: Config where
  "fleet_mixed = fleet [node ''m'' ''master'' (Some (vm ''i-0'' ''h0'')),
                        (node ''a'' ''slave'' None)\<lparr>Location := ''Mars''\<rparr>,
                        node ''b'' ''slave'' (Some (vm ''i-2'' ''h2''))]"

text \<open>A configuration file: no node has an instance yet.\<close>

definition fleet_fresh :: Config where
  "fleet_fresh = fleet [node ''m'' ''master'' None, node ''a'' ''slave'' None, node ''b'' ''slave'' None]"

text \<open>
  An environment in which every call succeeds at once; \<^verbatim>\<open>config.json\<close> holds
  \<open>fleet_fresh\<close> and \<^verbatim>\<open>state.json\<close> holds \<open>fleet_mixed\<close>.
\<close>

definition env_ok :: env where
  "env_ok =
     \<lparr>ec2_RunInstances = (\<lambda>tr ec options. Inr [vm ''i-new'' []]),
      ec2_TerminateInstances = (\<lambda>tr ec ids. None),
      ec2_Instances = (\<lambda>i tr ec ids. Inr [\<lparr>Instances = [vm (concat ids) ''host'']\<rparr>]),
      call_duration = (\<lambda>i tr. 0),
      start_time = (\<lambda>i. 0),
      ssh_CombinedOutput = (\<lambda>i tr userhost command stdin. None),
      os_Create = (\<lambda>fs name. None),
      file_Write = (\<lambda>fs name text. None),
      read_Config = (\<lambda>name. if name = ''config.json'' then Inr fleet_fresh
                              else if name = ''state.json'' then Inr fleet_mixed
                              else Inl (External ''no such file'')),
      write_Config = (\<lambda>name c. None)\<rparr>"


definition env_first_terminate_fails :: env where
  "env_first_terminate_fails =
     env_ok\<lparr>ec2_TerminateInstances :=
       (\<lambda>tr ec ids. if tr = [] then Some (External ''timeout'') else None)\<rparr>"


text \<open>A state file in which every node has an instance and the second has a location outside the table.\<close>

definition fleet_unresolvable :: Config where
  "fleet_unresolvable = fleet [node ''m'' ''master'' (Some (vm ''i-0'' ''h0'')),
                               (node ''a'' ''slave'' (Some (vm ''i-1'' ''h1'')))\<lparr>Location := ''Mars''\<rparr>,
                               node ''b'' ''slave'' (Some (vm ''i-2'' ''h2''))]"

text \<open>A fleet after a successful \<^verbatim>\<open>run\<close>, and a rollout in which the script fails on the second node.\<close>

definition fleet_ready :: Config where
  "fleet_ready = fleet [node ''m'' ''master'' (Some (vm ''i-0'' ''h0'')),
                        node ''a'' ''slave'' (Some (vm ''i-1'' ''h1'')),
                        node ''b'' ''slave'' (Some (vm ''i-2'' ''h2''))]"

definition env_second_script_fails :: env where
  "env_second_script_fails =
     env_ok\<lparr>ssh_CombinedOutput :=
       (\<lambda>i tr userhost command stdin.
          if i = 1 \<and> command = ''bash setup.sh'' then Some (External ''exit status 1'') else None)\<rparr>"

text \<open>A fleet without a master.\<close>

definition fleet_no_master :: Config where
  "fleet_no_master = fleet [node ''a'' ''slave'' (Some (vm ''i-1'' ''h1'')), node ''b'' ''slave'' None]"

section \<open>Properties\<close>

lemma Tokyo: "Locations ''Tokyo'' = Some APNortheast"
  by (simp add: Locations_def)

lemma Mars: "Locations ''Mars'' = None"
  by (simp add: Locations_def)

lemmas example_defs = node_def fleet_def vm_def env_ok_def


subsection \<open>Shutdown\<close>

lemma Shutdown_loop_run:
  assumes "\<forall>i \<in> set is. live c i \<longrightarrow> Location (Server c ! i) \<in> dom Locations"
  shows "Shutdown_loop e c is ok tr =
     Ret (ok \<and> (\<forall>j<length is. 
                  terminate_response e c (tr @ concat (map (terminate_request c) (take j is))) (is ! j) = None),
          tr @ concat (map (terminate_request c) is))"
  using assms
proof (induction "is" arbitrary: ok tr)
  case Nil
  then show ?case by simp
next
  case (Cons i "is")
  show ?case
  proof (cases "Instance (Server c ! i)")
    case None
    then have "terminate_request c i = []" "\<And>tr. terminate_response e c tr i = None"
      by (simp_all add: terminate_request_def terminate_response_def)
    with None Cons show ?thesis
      by (simp add: All_less_Suc2)
  next
    case (Some inst)
    with Cons.prems obtain r where r: "Locations (Location (Server c ! i)) = Some r"
      by (auto simp: live_def)
    have req: "terminate_request c i = [EvTerminateInstances i (auth c, r) [InstanceId inst]]"
      and resp: "\<And>tr. terminate_response e c tr i = ec2_TerminateInstances e tr (auth c, r) [InstanceId inst]"
      using Some r by (simp_all add: terminate_request_def terminate_response_def client_def)
    from Cons.prems have "\<forall>i \<in> set is. live c i \<longrightarrow> Location (Server c ! i) \<in> dom Locations"
      by simp
    note IH = Cons.IH [OF this]
    show ?thesis
      using Some r by (auto simp add: Region_def IH req resp All_less_Suc2 Let_def)
  qed
qed

lemma terminated_append: "terminated (xs @ ys) = terminated xs @ terminated ys"
  by (induction xs rule: terminated.induct) simp_all

lemma terminated_requests:
  "terminated (concat (map (terminate_request c) is)) = filter (live c) is"
  by (induction "is") (auto simp: terminated_append terminate_request_def live_def split: option.splits)

lemma Shutdown_result:
  assumes "\<forall>i<length (Server (cfg st)). live (cfg st) i \<longrightarrow> Location (Server (cfg st) ! i) \<in> dom Locations"
  shows "Shutdown e st =
           Ret (if \<exists>i<length (Server (cfg st)). terminate_failed e (cfg st) (trace st) i
                then Some ShutdownUnclean else None,
                st\<lparr>trace := trace st @ shutdown_requests (cfg st)\<rparr>)"
proof -
  have "\<forall>i \<in> set [0..<length (Server (cfg st))]. live (cfg st) i \<longrightarrow> Location (Server (cfg st) ! i) \<in> dom Locations"
    using assms by simp
  from Shutdown_loop_run [OF this, of e True "trace st"] show ?thesis
    by (simp add: Shutdown_def shutdown_requests_def terminate_failed_def)
qed

text \<open>
  C7 (as amended). On a fleet in which every node that has an instance identifier has a
  location of the region table, \<^verbatim>\<open>Shutdown\<close> returns (it never stops early on a failed
  termination), having requested termination exactly once for each node with an
  instance identifier, in fleet order, and for no other node; it reports failure iff
  the request for some such node failed. (On a fleet with a node that has an instance
  identifier and a location outside the table the process panics at that node, see
  \<open>Shutdown_panics_on_unresolvable\<close>.)
\<close>

theorem Shutdown_terminates_live_nodes:
  assumes "\<forall>i<length (Server (cfg st)). live (cfg st) i \<longrightarrow> Location (Server (cfg st) ! i) \<in> dom Locations"
  shows "Shutdown e st =
           Ret (if \<exists>i<length (Server (cfg st)). live (cfg st) i \<and> terminate_failed e (cfg st) (trace st) i
                then Some ShutdownUnclean else None,
                st\<lparr>trace := trace st @ shutdown_requests (cfg st)\<rparr>)
         \<and> terminated (shutdown_requests (cfg st)) = filter (live (cfg st)) [0..<length (Server (cfg st))]
         \<and> length (shutdown_requests (cfg st)) = length (filter (live (cfg st)) [0..<length (Server (cfg st))])"
proof -
  have "terminate_failed e (cfg st) (trace st) i \<Longrightarrow> live (cfg st) i" for i
    by (auto simp: terminate_failed_def terminate_response_def live_def split: option.splits)
  then have "(\<exists>i<length (Server (cfg st)). live (cfg st) i \<and> terminate_failed e (cfg st) (trace st) i)
    = (\<exists>i<length (Server (cfg st)). terminate_failed e (cfg st) (trace st) i)"
    by blast
  moreover have "length (concat (map (terminate_request c) is)) = length (filter (live c) is)" for c "is"
    by (induction "is") (auto simp: terminate_request_def live_def split: option.splits)
  ultimately show ?thesis
    using Shutdown_result [OF assms, of e]
    by (simp add: shutdown_requests_def terminated_requests)
qed

theorem Shutdown_terminates_live_nodes_witness:
  "Shutdown env_first_terminate_fails \<lparr>cfg = fleet_mixed, trace = []\<rparr> =
     Ret (Some ShutdownUnclean,
          \<lparr>cfg = fleet_mixed,
           trace = [EvTerminateInstances 0 ((''id'', ''secret''), APNortheast) [''i-0''],
                    EvTerminateInstances 2 ((''id'', ''secret''), APNortheast) [''i-2'']]\<rparr>)"
proof -
  have "\<forall>i<length (Server fleet_mixed). live fleet_mixed i \<longrightarrow>
          Location (Server fleet_mixed ! i) \<in> dom Locations"
    by (simp add: fleet_mixed_def example_defs live_def All_less_Suc Tokyo domIff)
  then have "\<forall>i<length (Server (cfg \<lparr>cfg = fleet_mixed, trace = []\<rparr>)).
      live (cfg \<lparr>cfg = fleet_mixed, trace = []\<rparr>) i \<longrightarrow>
      Location (Server (cfg \<lparr>cfg = fleet_mixed, trace = []\<rparr>) ! i) \<in> dom Locations"
    by simp
  from Shutdown_terminates_live_nodes [OF this, of env_first_terminate_fails]
  have "Shutdown env_first_terminate_fails \<lparr>cfg = fleet_mixed, trace = []\<rparr> =
     Ret (if \<exists>i<length (Server fleet_mixed). live fleet_mixed i \<and>
                terminate_failed env_first_terminate_fails fleet_mixed [] i
          then Some ShutdownUnclean else None,
          \<lparr>cfg = fleet_mixed, trace = shutdown_requests fleet_mixed\<rparr>)"
    by simp
  also have "\<dots> = Ret (Some ShutdownUnclean,
          \<lparr>cfg = fleet_mixed,
           trace = [EvTerminateInstances 0 ((''id'', ''secret''), APNortheast) [''i-0''],
                    EvTerminateInstances 2 ((''id'', ''secret''), APNortheast) [''i-2'']]\<rparr>)"
    by (simp add: shutdown_requests_def terminate_request_def terminate_failed_def
        terminate_response_def client_def live_def fleet_mixed_def example_defs
        env_first_terminate_fails_def Tokyo Ex_less_Suc)
  finally show ?thesis .
qed

lemma Shutdown_loop_panics:
  "j \<in> set is \<Longrightarrow> live c j \<Longrightarrow> Location (Server c ! j) \<notin> dom Locations \<Longrightarrow>
   panicked (Shutdown_loop e c is ok tr)"
  by (induction "is" arbitrary: ok tr)
     (auto simp: Region_def live_def Let_def panicked_def domIff split: option.splits)

lemma Shutdown_panics_on_unresolvable:
  assumes "j < length (Server (cfg st))" "live (cfg st) j"
    and "Location (Server (cfg st) ! j) \<notin> dom Locations"
  shows "panicked (Shutdown e st)"
proof -
  have "j \<in> set [0..<length (Server (cfg st))]"
    using assms(1) by simp
  from Shutdown_loop_panics [OF this assms(2,3), of e True "trace st"] show ?thesis
    by (auto simp: Shutdown_def panicked_def split: outcome.splits)
qed

text \<open>
  All three nodes have an instance identifier and the location of the second is not in
  the table: the process panics, no result is returned, and the third node, which has an
  instance, is among the nodes that were to be asked.
\<close>

theorem Shutdown_every_fleet_counterexample:
  "panicked (Shutdown env_ok \<lparr>cfg = fleet_unresolvable, trace = []\<rparr>) \<and>
   live fleet_unresolvable 0 \<and> live fleet_unresolvable 1 \<and> live fleet_unresolvable 2"
  by (simp add: Shutdown_def Region_def Let_def panicked_def live_def fleet_unresolvable_def
      example_defs Tokyo Mars upt_rec [of 0] upt_rec [of 1] upt_rec [of 2] upt_rec [of 3]
      numeral_3_eq_3)

subsection \<open>Run: creation and rollback\<close>

















subsection \<open>Setup\<close>

text \<open>The order in which the results arrive on the channel does not matter.\<close>

lemma Setup_fanin_conj: "Setup_fanin ks allOk = (allOk \<and> (\<forall>k \<in> set ks. k))"
  by (induction ks arbitrary: allOk) auto

lemma Setup_fanin_order:
  "set ks' = set ks \<Longrightarrow> Setup_fanin ks' True = Setup_fanin ks True"
  by (simp add: Setup_fanin_conj)

lemma sshCommand_calls:
  "sshCommand e i s command stdin tr = (r, tr') \<Longrightarrow>
   (\<exists>ev. ssh_for i ev \<and> tr' = tr @ [ev]) \<or> tr' = tr"
  by (auto simp: sshCommand_def Let_def split: option.splits)

lemma setupInstance_calls:
  "length (snd (setupInstance e c i)) \<le> 2 \<and> (\<forall>ev \<in> set (snd (setupInstance e c i)). ssh_for i ev)"
proof -
  have "length tr' \<le> 2 \<and> (\<forall>ev \<in> set tr'. ssh_for i ev)"
    if "(case sshCommand e i s ''cat > setup.sh'' (Some stdin) [] of
                (Some err, tr) \<Rightarrow> (Some err, tr)
              | (None, tr) \<Rightarrow> sshCommand e i s ''bash setup.sh'' None tr) = (r, tr')"
    for s stdin r tr'
  proof (cases "sshCommand e i s ''cat > setup.sh'' (Some stdin) []")
    case (Pair r1 tr1)
    from sshCommand_calls [OF Pair] have tr1: "length tr1 \<le> 1 \<and> (\<forall>ev \<in> set tr1. ssh_for i ev)"
      by auto
    show ?thesis
    proof (cases r1)
      case None
      with that Pair have "sshCommand e i s ''bash setup.sh'' None tr1 = (r, tr')" by simp
      from sshCommand_calls [OF this] tr1 show ?thesis by auto
    next
      case (Some err)
      with that Pair tr1 show ?thesis by auto
    qed
  qed
  then show ?thesis
    by (cases "setupInstance e c i")
       (auto simp: setupInstance_def Let_def split: sum.splits option.splits if_splits)
qed

lemma setupInstance_own_oracle:
  "ssh_CombinedOutput e' i = ssh_CombinedOutput e i \<Longrightarrow> setupInstance e' c i = setupInstance e c i"
proof -
  assume "ssh_CombinedOutput e' i = ssh_CombinedOutput e i"
  then have "sshCommand e' i s command stdin tr = sshCommand e i s command stdin tr"
    for s command stdin tr
    by (simp add: sshCommand_def split: option.splits)
  then have eq: "sshCommand e' i = sshCommand e i"
    by (intro ext)
  show ?thesis
    unfolding setupInstance_def eq by (rule refl)
qed

text \<open>
  C4. \<^verbatim>\<open>Setup\<close> always returns; it succeeds iff the rollout of every node succeeded, and
  fails with the one aggregate error otherwise. Every node is attempted: the commands of
  every worker are in the trace whatever the other workers returned. The outcome of a
  node's worker depends on the answers to its own remote commands only, so the failure
  of one node changes the outcome of no other. The configuration is returned unchanged
  and a worker issues at most two calls, both remote commands for its own node: there
  is no rollback (no termination request) and no retry.
\<close>

theorem Setup_is_conjunction:
  "Setup e st =
     Ret (if \<forall>i<length (Server (cfg st)). rollout_ok e (cfg st) i then None else Some SetupUnclean,
          st\<lparr>trace := trace st @ rollout_calls e (cfg st)\<rparr>)
   \<and> (\<forall>i<length (Server (cfg st)).
        (\<forall>e'. ssh_CombinedOutput e' i = ssh_CombinedOutput e i \<longrightarrow>
              setupInstance e' (cfg st) i = setupInstance e (cfg st) i)
        \<and> length (snd (setupInstance e (cfg st) i)) \<le> 2
        \<and> (\<forall>ev \<in> set (snd (setupInstance e (cfg st) i)). ssh_for i ev))"
proof (rule conjI)
  have "Setup_fanin (map (\<lambda>r. fst r = None) (map (setupInstance e (cfg st)) [0..<length (Server (cfg st))])) True
        = (\<forall>i<length (Server (cfg st)). rollout_ok e (cfg st) i)"
    by (auto simp: Setup_fanin_conj rollout_ok_def)
  then show "Setup e st =
     Ret (if \<forall>i<length (Server (cfg st)). rollout_ok e (cfg st) i then None else Some SetupUnclean,
          st\<lparr>trace := trace st @ rollout_calls e (cfg st)\<rparr>)"
    by (simp add: Setup_def Let_def rollout_calls_def comp_def)
next
  show "\<forall>i<length (Server (cfg st)).
        (\<forall>e'. ssh_CombinedOutput e' i = ssh_CombinedOutput e i \<longrightarrow>
              setupInstance e' (cfg st) i = setupInstance e (cfg st) i)
        \<and> length (snd (setupInstance e (cfg st) i)) \<le> 2
        \<and> (\<forall>ev \<in> set (snd (setupInstance e (cfg st) i)). ssh_for i ev)"
  proof (intro allI impI conjI)
    fix i and e' :: env
    assume "ssh_CombinedOutput e' i = ssh_CombinedOutput e i"
    then show "setupInstance e' (cfg st) i = setupInstance e (cfg st) i"
      by (rule setupInstance_own_oracle)
  next
    fix i
    show "length (snd (setupInstance e (cfg st) i)) \<le> 2"
      using setupInstance_calls [of e "cfg st" i] by (rule conjunct1)
  next
    fix i
    show "\<forall>ev \<in> set (snd (setupInstance e (cfg st) i)). ssh_for i ev"
      using setupInstance_calls [of e "cfg st" i] by (rule conjunct2)
  qed
qed

theorem Setup_is_conjunction_witness:
  "returned (Setup env_second_script_fails \<lparr>cfg = fleet_ready, trace = []\<rparr>) = Some (Some SetupUnclean)
   \<and> rollout_ok env_second_script_fails fleet_ready 0
   \<and> \<not> rollout_ok env_second_script_fails fleet_ready 1
   \<and> rollout_ok env_second_script_fails fleet_ready 2"
proof -
  have r0: "rollout_ok env_second_script_fails fleet_ready 0"
    and r1: "\<not> rollout_ok env_second_script_fails fleet_ready 1"
    and r2: "rollout_ok env_second_script_fails fleet_ready 2"
    by (simp_all add: rollout_ok_def setupInstance_def sshCommand_def SetupTemplate_def Let_def
        fleet_ready_def env_second_script_fails_def example_defs)
  from r1 have "\<not> (\<forall>i<length (Server (cfg \<lparr>cfg = fleet_ready, trace = []\<rparr>)).
      rollout_ok env_second_script_fails (cfg \<lparr>cfg = fleet_ready, trace = []\<rparr>) i)"
    by (auto simp: fleet_ready_def fleet_def)
  with Setup_is_conjunction [of env_second_script_fails "\<lparr>cfg = fleet_ready, trace = []\<rparr>"]
  have "returned (Setup env_second_script_fails \<lparr>cfg = fleet_ready, trace = []\<rparr>) = Some (Some SetupUnclean)"
    by (simp add: returned_def)
  with r0 r1 r2 show ?thesis by simp
qed

lemma find_no_master:
  "\<forall>s \<in> set ss. Kind s \<noteq> ''master'' \<Longrightarrow> find (\<lambda>n. Kind n = ''master'') ss = None"
  by (induction ss) auto

text \<open>
  C5 (as amended). On a fleet with no node of role master, the rollout of every node
  returns the missing-master error before its script is rendered and without issuing a
  remote command; the check is made inside each node's rollout, once per node.
  \<^verbatim>\<open>Setup\<close> then fails with the aggregate error if the fleet has a node, and succeeds
  if the fleet is empty; its trace is unchanged.
\<close>

theorem Setup_without_master:
  assumes "\<forall>s \<in> set (Server (cfg st)). Kind s \<noteq> ''master''"
  shows "(\<forall>i<length (Server (cfg st)). setupInstance e (cfg st) i = (Some NoMasterFound, []))
         \<and> Setup e st = Ret (if Server (cfg st) = [] then None else Some SetupUnclean, st)"
proof -
  let ?n = "length (Server (cfg st))"
  have f: "find (\<lambda>n. Kind n = ''master'') (Server (cfg st)) = None"
    by (rule find_no_master [OF assms])
  have one: "setupInstance e (cfg st) i = (Some NoMasterFound, [])" if "i < ?n" for i
  proof -
    from that have "Server (cfg st) ! i \<in> set (Server (cfg st))" by (rule nth_mem)
    with assms have k: "Kind (Server (cfg st) ! i) \<noteq> ''master''" by blast
    show ?thesis
      unfolding setupInstance_def Let_def by (simp only: k f if_False option.case sum.case)
  qed
  have all: "map (setupInstance e (cfg st)) [0..<?n] = replicate ?n (Some NoMasterFound, [])"
    by (rule nth_equalityI) (simp_all add: one)
  have "Setup_fanin (map (\<lambda>r. fst r = None) (replicate ?n (Some NoMasterFound, []))) True
        = (Server (cfg st) = [])"
    by (simp add: Setup_fanin_conj)
  moreover have "concat (map snd (replicate ?n (Some NoMasterFound, []::event list))) = []"
    by (induction ?n) simp_all
  ultimately have "Setup e st = Ret (if Server (cfg st) = [] then None else Some SetupUnclean, st)"
    unfolding Setup_def Let_def all by simp
  with one show ?thesis by simp
qed

theorem Setup_without_master_witness:
  "setupInstance env_ok fleet_no_master 0 = (Some NoMasterFound, [])
   \<and> setupInstance env_ok fleet_no_master 1 = (Some NoMasterFound, [])
   \<and> Setup env_ok \<lparr>cfg = fleet_no_master, trace = []\<rparr>
       = Ret (Some SetupUnclean, \<lparr>cfg = fleet_no_master, trace = []\<rparr>)"
proof -
  have "\<forall>s \<in> set (Server (cfg \<lparr>cfg = fleet_no_master, trace = []\<rparr>)). Kind s \<noteq> ''master''"
    by (simp add: fleet_no_master_def example_defs)
  from Setup_without_master [OF this, of env_ok] show ?thesis
    by (simp add: fleet_no_master_def fleet_def All_less_Suc)
qed

text \<open>
  Neither fleet has a master. On the empty fleet \<^verbatim>\<open>Setup\<close> succeeds; on a fleet of two
  relays the error it returns is the aggregate error, not the missing-master error.
\<close>

theorem Setup_missing_master_counterexample:
  "returned (Setup env_ok \<lparr>cfg = fleet [], trace = []\<rparr>) = Some None
   \<and> returned (Setup env_ok \<lparr>cfg = fleet_no_master, trace = []\<rparr>) = Some (Some SetupUnclean)
   \<and> Some SetupUnclean \<noteq> Some NoMasterFound"
  by (simp add: returned_def Setup_def setupInstance_def Let_def fleet_no_master_def example_defs)

subsection \<open>The command\<close>




end
